theory Spec2Isabelle
  imports Complex_Main "HOL-Library.Multiset" "HOL-Library.Sublist"
begin

section \<open>Python values used by the explanation generator\<close>

text \<open>
  The module under study is \<^verbatim>\<open>backend/app.py\<close>; its class \<^verbatim>\<open>ExplanationGenerator\<close>
  holds three static methods that turn a prediction or a fairness report into text.

  Conventions of the embedding.
  \<^item> A Python \<^verbatim>\<open>float\<close> is a rational number: comparisons, \<^verbatim>\<open>abs\<close> and sorting are
    those of the finite floats, and \<^verbatim>\<open>x * 100\<close> is the exact product (binary rounding,
    infinities and NaN are outside the model).
  \<^item> A Python \<^verbatim>\<open>str\<close> is a \<^typ>\<open>string\<close> of ASCII characters.
  \<^item> A Python \<^verbatim>\<open>dict\<close> is the list of its items in iteration (insertion) order, since
    \<^verbatim>\<open>sorted\<close>, \<^verbatim>\<open>max\<close> and \<^verbatim>\<open>min\<close> see the items in that order.
  \<^item> An exception is a value \<open>Inl e\<close> of the result type.
\<close>

datatype py_error = ValueError | IndexError

definition bind_result :: "py_error + 'a \<Rightarrow> ('a \<Rightarrow> py_error + 'b) \<Rightarrow> py_error + 'b" where
  "bind_result r f = (case r of Inl e \<Rightarrow> Inl e | Inr v \<Rightarrow> f v)"

subsection \<open>String methods\<close>

text \<open>\<^verbatim>\<open>s.replace('_', ' ')\<close>\<close>

definition replace_underscore :: "string \<Rightarrow> string" where
  "replace_underscore s = map (\<lambda>c. if c = CHR ''_'' then CHR '' '' else c) s"

definition is_upper :: "char \<Rightarrow> bool" where
  "is_upper c = (65 \<le> (of_char c :: nat) \<and> (of_char c :: nat) \<le> 90)"

definition is_lower :: "char \<Rightarrow> bool" where
  "is_lower c = (97 \<le> (of_char c :: nat) \<and> (of_char c :: nat) \<le> 122)"

definition to_upper :: "char \<Rightarrow> char" where
  "to_upper c = (if is_lower c then char_of ((of_char c :: nat) - 32) else c)"

definition to_lower :: "char \<Rightarrow> char" where
  "to_lower c = (if is_upper c then char_of ((of_char c :: nat) + 32) else c)"

text \<open>
  \<^verbatim>\<open>s.title()\<close>: a letter that follows a letter is lower-cased, any other letter is
  upper-cased, and a character that is not a letter is kept and ends the word.
\<close>

fun title_from :: "bool \<Rightarrow> string \<Rightarrow> string" where
  "title_from previous_is_cased [] = []"
| "title_from previous_is_cased (c # cs) =
     (if is_upper c \<or> is_lower c
      then (if previous_is_cased then to_lower c else to_upper c) # title_from True cs
      else c # title_from False cs)"

definition title :: "string \<Rightarrow> string" where
  "title s = title_from False s"

subsection \<open>Number formatting\<close>

definition digit_char :: "nat \<Rightarrow> char" where
  "digit_char d = char_of (48 + d)"

fun digits :: "nat \<Rightarrow> string" where
  "digits n = (if n < 10 then [digit_char n] else digits (n div 10) @ [digit_char (n mod 10)])"

declare digits.simps [simp del]

text \<open>\<^verbatim>\<open>str(i)\<close> of an integer.\<close>

definition str_int :: "int \<Rightarrow> string" where
  "str_int i = (if i < 0 then ''-'' @ digits (nat (- i)) else digits (nat i))"

text \<open>Rounding to the nearest integer, a tie going to the even neighbour.\<close>

definition round_half_even :: "rat \<Rightarrow> int" where
  "round_half_even x =
     (let f = \<lfloor>x\<rfloor>; r = x - of_int f
      in if r < 1 / 2 then f else if 1 / 2 < r then f + 1 else if even f then f else f + 1)"

text \<open>
  The digits of \<open>\<bar>x\<bar>\<close> with \<open>p\<close> decimals, as one natural number, and the two halves
  of a fixed-point rendering.
\<close>

definition scaled_round :: "nat \<Rightarrow> rat \<Rightarrow> nat" where
  "scaled_round p x = nat (round_half_even (\<bar>x\<bar> * 10 ^ p))"

definition sign_prefix :: "rat \<Rightarrow> string" where
  "sign_prefix x = (if x < 0 then ''-'' else [])"

definition frac_digits :: "nat \<Rightarrow> nat \<Rightarrow> string" where
  "frac_digits p n =
     (let fs = digits (n mod 10 ^ p) in replicate (p - length fs) (CHR ''0'') @ fs)"

text \<open>\<^verbatim>\<open>f"{x:.1f}"\<close>\<close>

definition format_1f :: "rat \<Rightarrow> string" where
  "format_1f x =
     (let n = scaled_round 1 x
      in sign_prefix x @ digits (n div 10) @ ''.'' @ frac_digits 1 n)"

text \<open>The thousands separator of the \<^verbatim>\<open>,\<close> format option.\<close>

fun group_thousands :: "string \<Rightarrow> string" where
  "group_thousands ds =
     (if length ds \<le> 3 then ds
      else group_thousands (take (length ds - 3) ds) @ '','' @ drop (length ds - 3) ds)"

declare group_thousands.simps [simp del]

text \<open>\<^verbatim>\<open>f"{x:,.2f}"\<close>\<close>

definition format_comma_2f :: "rat \<Rightarrow> string" where
  "format_comma_2f x =
     (let n = scaled_round 2 x
      in sign_prefix x @ group_thousands (digits (n div 100)) @ ''.'' @ frac_digits 2 n)"

subsection \<open>Built-ins: \<^verbatim>\<open>sorted\<close>, \<^verbatim>\<open>max\<close>, \<^verbatim>\<open>min\<close>\<close>

text \<open>
  \<^verbatim>\<open>sorted(xs, key=key, reverse=True)\<close> is a stable sort into descending key order:
  items with equal keys keep their original relative order. Insertion from the right
  computes that list.
\<close>

fun insort_desc :: "('a \<Rightarrow> 'k::linorder) \<Rightarrow> 'a \<Rightarrow> 'a list \<Rightarrow> 'a list" where
  "insort_desc key x [] = [x]"
| "insort_desc key x (y # ys) =
     (if key y \<le> key x then x # y # ys else y # insort_desc key x ys)"

definition sorted_reverse :: "('a \<Rightarrow> 'k::linorder) \<Rightarrow> 'a list \<Rightarrow> 'a list" where
  "sorted_reverse key xs = foldr (insort_desc key) xs []"

text \<open>
  \<^verbatim>\<open>max(xs, key=key)\<close> keeps the first item and replaces it only by a strictly greater
  one; \<^verbatim>\<open>min\<close> only by a strictly smaller one. Both raise \<^verbatim>\<open>ValueError\<close> on an empty
  argument.
\<close>

fun max_from :: "('a \<Rightarrow> 'k::linorder) \<Rightarrow> 'a \<Rightarrow> 'a list \<Rightarrow> 'a" where
  "max_from key best [] = best"
| "max_from key best (x # xs) = max_from key (if key best < key x then x else best) xs"

fun min_from :: "('a \<Rightarrow> 'k::linorder) \<Rightarrow> 'a \<Rightarrow> 'a list \<Rightarrow> 'a" where
  "min_from key best [] = best"
| "min_from key best (x # xs) = min_from key (if key x < key best then x else best) xs"

definition py_max :: "('a \<Rightarrow> 'k::linorder) \<Rightarrow> 'a list \<Rightarrow> py_error + 'a" where
  "py_max key xs = (case xs of [] \<Rightarrow> Inl ValueError | x # rest \<Rightarrow> Inr (max_from key x rest))"

definition py_min :: "('a \<Rightarrow> 'k::linorder) \<Rightarrow> 'a list \<Rightarrow> py_error + 'a" where
  "py_min key xs = (case xs of [] \<Rightarrow> Inl ValueError | x # rest \<Rightarrow> Inr (min_from key x rest))"

text \<open>\<^verbatim>\<open>xs[0]\<close>\<close>

definition first_item :: "'a list \<Rightarrow> py_error + 'a" where
  "first_item xs = (case xs of [] \<Rightarrow> Inl IndexError | x # _ \<Rightarrow> Inr x)"

section \<open>The data model\<close>

text \<open>
  The pydantic models of the module. \<^verbatim>\<open>LoanApplication\<close> and \<^verbatim>\<open>FairnessResponse\<close>
  both have fields called gender, race and disability_status; the applicant's carry the
  prefix \<open>applicant_\<close> here.
\<close>

record LoanApplication =
  applicant_gender :: string
  applicant_race :: string
  age :: int
  income :: rat
  credit_score :: int
  loan_amount :: rat
  employment_type :: string
  education_level :: string
  citizenship_status :: string
  language_proficiency :: string
  applicant_disability_status :: string
  criminal_record :: string
  zip_code_group :: string

record PredictionResponse =
  approved :: bool
  approval_probability :: rat
  explanation :: "(string \<times> rat) list"

record BiasMetrics =
  approval_rates :: "(string \<times> rat) list"
  approval_disparity :: rat
  fp_rates :: "(string \<times> rat) list"
  fn_rates :: "(string \<times> rat) list"
  fp_disparity :: rat
  fn_disparity :: rat

record FairnessResponse =
  gender :: BiasMetrics
  race :: BiasMetrics
  age_group :: BiasMetrics
  disability_status :: BiasMetrics

section \<open>\<^verbatim>\<open>ExplanationGenerator.generate_loan_explanation\<close>\<close>

text \<open>
  The two \<^verbatim>\<open>for factor, impact in top_factors\<close> loops differ only in the words that
  end the bullet; \<open>ending\<close> is that text.
\<close>

fun append_factors :: "string \<Rightarrow> (string \<times> rat) list \<Rightarrow> string \<Rightarrow> string" where
  "append_factors ending [] message = message"
| "append_factors ending ((factor, impact) # rest) message =
     (let factor_name = title (replace_underscore factor);
          message = message @ ''- '' @ factor_name @ '': This factor had a ''
                      @ format_1f (impact * 100) @ ending
      in append_factors ending rest message)"

definition approved_opening :: "rat \<Rightarrow> string" where
  "approved_opening probability =
     ''\<newline>We are pleased to inform you that your loan application has been approved with an approval probability of ''
     @ format_1f probability
     @ ''%. Our BiasShield system has carefully evaluated your application, taking into account various factors that contribute to your creditworthiness.\<newline>\<newline>The key factors that positively influenced this decision include:\<newline>''"

definition approved_recommendations :: string where
  "approved_recommendations =
     ''\<newline>Recommendations:\<newline>1. Maintain your current credit score by making timely payments\<newline>2. Consider setting up automatic payments to avoid any missed deadlines\<newline>3. Review your loan terms carefully before proceeding\<newline>\<newline>Thank you for choosing our services. If you have any questions about your approval or the next steps, please don't hesitate to contact our customer service team.\<newline>\<newline>BiasShield Decision System\<newline>''"

definition approved_closing :: "LoanApplication \<Rightarrow> string" where
  "approved_closing application =
     ''\<newline>Your credit score of '' @ str_int (credit_score application)
     @ '' and income of $'' @ format_comma_2f (income application)
     @ '' demonstrate financial stability, which are important indicators of your ability to repay the loan.\<newline>''
     @ approved_recommendations"

definition denied_opening :: "rat \<Rightarrow> string" where
  "denied_opening probability =
     ''\<newline>We regret to inform you that your loan application has not been approved at this time. Our BiasShield system has carefully evaluated your application and determined that it does not meet our current lending criteria. The decision was made with an approval probability of ''
     @ format_1f probability
     @ ''%.\<newline>\<newline>The key factors that influenced this decision include:\<newline>''"

definition denied_closing :: string where
  "denied_closing =
     ''\<newline>Recommendations to improve your future applications:\<newline>1. Work on improving your credit score through timely bill payments\<newline>2. Reduce existing debt before applying for new credit\<newline>3. Consider applying for a smaller loan amount relative to your income\<newline>4. Wait 3-6 months before reapplying to allow time for credit improvements\<newline>\<newline>We encourage you to review your credit report for any inaccuracies and address any issues that may be affecting your creditworthiness. If you believe this decision was made in error or would like more information, you can request a detailed explanation of the decision.\<newline>\<newline>BiasShield Decision System\<newline>''"

definition generate_loan_explanation :: "LoanApplication \<Rightarrow> PredictionResponse \<Rightarrow> string" where
  "generate_loan_explanation application prediction =
     (let probability = approval_probability prediction * 100;
          explanation_factors = explanation prediction;
          sorted_factors = sorted_reverse snd explanation_factors;
          top_factors = take 3 sorted_factors
      in if approved prediction
         then (let message = approved_opening probability;
                   message = append_factors ''% impact on your approval\<newline>'' top_factors message;
                   message = message @ approved_closing application
               in message)
         else (let message = denied_opening probability;
                   message = append_factors ''% impact on the decision\<newline>'' top_factors message;
                   message = message @ denied_closing
               in message))"

section \<open>\<^verbatim>\<open>ExplanationGenerator.generate_bias_explanation\<close>\<close>

text \<open>
  Both fairness methods start with the same lines: the four disparities as percentages,
  listed in the fixed order Gender, Race, Age Group, Disability Status.
\<close>

definition disparities :: "FairnessResponse \<Rightarrow> (string \<times> rat) list" where
  "disparities fairness_data =
     (let gender_disparity = approval_disparity (gender fairness_data) * 100;
          race_disparity = approval_disparity (race fairness_data) * 100;
          age_disparity = approval_disparity (age_group fairness_data) * 100;
          disability_disparity = approval_disparity (disability_status fairness_data) * 100
      in [(''Gender'', gender_disparity),
          (''Race'', race_disparity),
          (''Age Group'', age_disparity),
          (''Disability Status'', disability_disparity)])"

text \<open>\<^verbatim>\<open>max(abs(d[1]) for d in disparities)\<close>\<close>

definition max_abs :: "(string \<times> rat) list \<Rightarrow> py_error + rat" where
  "max_abs ds = py_max (\<lambda>v. v) (map (\<lambda>d. \<bar>snd d\<bar>) ds)"

definition high_alert :: string where
  "high_alert = ''**High Bias Alert**: Significant disparities detected in approval rates across protected attributes.\<newline>\<newline>''"

definition moderate_alert :: string where
  "moderate_alert = ''**Moderate Bias Alert**: Some disparities detected in approval rates across protected attributes.\<newline>\<newline>''"

definition low_alert :: string where
  "low_alert = ''**Low Bias Alert**: Minimal disparities detected in approval rates across protected attributes.\<newline>\<newline>''"

definition high_conclusion :: string where
  "high_conclusion = ''The model shows significant bias that requires immediate attention. Implementing bias mitigation techniques is strongly recommended before deploying this model in production.\<newline>''"

definition moderate_conclusion :: string where
  "moderate_conclusion = ''The model shows moderate bias that should be addressed. Consider implementing bias mitigation techniques to improve fairness before full deployment.\<newline>''"

definition low_conclusion :: string where
  "low_conclusion = ''The model shows acceptable levels of bias, but continuous monitoring is recommended to ensure fairness is maintained over time.\<newline>''"

definition regulatory_concern :: string where
  "regulatory_concern = ''- **Regulatory concern**: This disparity exceeds the typical 5% threshold for regulatory scrutiny.\<newline>''"

text \<open>
  The body shared by the four branches of the loop: they differ only in the metrics
  whose \<^verbatim>\<open>approval_rates\<close> they read.
\<close>

definition attribute_details :: "(string \<times> rat) list \<Rightarrow> rat \<Rightarrow> string \<Rightarrow> py_error + string" where
  "attribute_details rates disparity message =
     bind_result (py_max snd rates) (\<lambda>highest.
     bind_result (py_min snd rates) (\<lambda>lowest.
       let message = message @ ''- Approval rate disparity: '' @ format_1f disparity @ ''%\<newline>'';
           message = message @ ''- Highest approval rate: '' @ fst highest
                       @ '' ('' @ format_1f (snd highest * 100) @ ''%)\<newline>'';
           message = message @ ''- Lowest approval rate: '' @ fst lowest
                       @ '' ('' @ format_1f (snd lowest * 100) @ ''%)\<newline>''
       in Inr (if \<bar>disparity\<bar> > 5 then message @ regulatory_concern else message)))"

text \<open>One iteration of \<^verbatim>\<open>for attribute, disparity in sorted_disparities\<close>.\<close>

definition bias_iteration :: "FairnessResponse \<Rightarrow> string \<times> rat \<Rightarrow> string \<Rightarrow> py_error + string" where
  "bias_iteration fairness_data item message =
     (let attribute = fst item; disparity = snd item;
          message = message @ ''**'' @ attribute @ ''**:\<newline>''
      in bind_result
           (if attribute = ''Gender''
            then attribute_details (approval_rates (gender fairness_data)) disparity message
            else if attribute = ''Race''
            then attribute_details (approval_rates (race fairness_data)) disparity message
            else if attribute = ''Age Group''
            then attribute_details (approval_rates (age_group fairness_data)) disparity message
            else if attribute = ''Disability Status''
            then attribute_details (approval_rates (disability_status fairness_data)) disparity message
            else Inr message)
           (\<lambda>message. Inr (message @ ''\<newline>'')))"

fun bias_loop :: "FairnessResponse \<Rightarrow> (string \<times> rat) list \<Rightarrow> string \<Rightarrow> py_error + string" where
  "bias_loop fairness_data [] message = Inr message"
| "bias_loop fairness_data (item # rest) message =
     bind_result (bias_iteration fairness_data item message) (bias_loop fairness_data rest)"

definition generate_bias_explanation :: "FairnessResponse \<Rightarrow> py_error + string" where
  "generate_bias_explanation fairness_data =
     (let sorted_disparities = sorted_reverse (\<lambda>x. \<bar>snd x\<bar>) (disparities fairness_data);
          message = ''## Bias Analysis Report\<newline>\<newline>'';
          message = message @ ''### Summary of Findings\<newline>\<newline>''
      in bind_result (max_abs (disparities fairness_data)) (\<lambda>m.
         bind_result
           (if m > 10 then Inr (message @ high_alert)
            else bind_result (max_abs (disparities fairness_data)) (\<lambda>m.
                   if m > 5 then Inr (message @ moderate_alert)
                   else Inr (message @ low_alert))) (\<lambda>message.
         let message = message @ ''### Detailed Analysis\<newline>\<newline>''
         in bind_result (bias_loop fairness_data sorted_disparities message) (\<lambda>message.
         let message = message @ ''### Conclusion\<newline>\<newline>''
         in bind_result (max_abs (disparities fairness_data)) (\<lambda>m.
            if m > 10 then Inr (message @ high_conclusion)
            else bind_result (max_abs (disparities fairness_data)) (\<lambda>m.
                   if m > 5 then Inr (message @ moderate_conclusion)
                   else Inr (message @ low_conclusion)))))))"

section \<open>\<^verbatim>\<open>ExplanationGenerator.generate_remediation_strategy\<close>\<close>

definition remediation_head :: string where
  "remediation_head = concat
    [''## Bias Remediation Strategy\<newline>\<newline>'',
     ''### Technical Strategies\<newline>\<newline>'',
     ''1. **Fairness Constraints**:\<newline>'',
     ''   - Implement Demographic Parity constraints during model training\<newline>'',
     ''   - Apply Equalized Odds constraints to balance error rates across groups\<newline>'']"

definition remediation_rest :: string where
  "remediation_rest = concat
    [''2. **Data Rebalancing**:\<newline>'',
     ''   - Apply instance weighting to compensate for underrepresented groups\<newline>'',
     ''   - Use reweighing techniques from the AIF360 toolkit\<newline>'',
     ''   - Consider synthetic data generation for minority groups\<newline>\<newline>'',
     ''3. **Model Adjustments**:\<newline>'',
     ''   - Optimize classification thresholds separately for each demographic group\<newline>'',
     ''   - Implement adversarial debiasing techniques\<newline>'',
     ''   - Consider ensemble methods that combine multiple fair classifiers\<newline>\<newline>'',
     ''### Feature Engineering Approaches\<newline>\<newline>'',
     ''1. **Feature Selection**:\<newline>'',
     ''   - Remove or reduce weight of features highly correlated with protected attributes\<newline>'',
     ''   - Identify and eliminate proxy variables that may encode bias\<newline>\<newline>'',
     ''2. **Feature Transformation**:\<newline>'',
     ''   - Apply fairness-aware feature transformations\<newline>'',
     ''   - Develop composite features that are less correlated with protected attributes\<newline>\<newline>'',
     ''### Policy Recommendations\<newline>\<newline>'',
     ''1. **Process Changes**:\<newline>'',
     ''   - Implement a second-level review for rejected applications from protected groups\<newline>'',
     ''   - Establish clear documentation requirements for all lending decisions\<newline>\<newline>'',
     ''2. **Monitoring Framework**:\<newline>'',
     ''   - Set up continuous monitoring of approval rates across demographic groups\<newline>'',
     ''   - Establish disparity thresholds that trigger automatic reviews\<newline>'',
     ''   - Conduct regular fairness audits with detailed reporting\<newline>\<newline>'',
     ''### Implementation Considerations\<newline>\<newline>'',
     ''1. **Performance Tradeoffs**:\<newline>'',
     ''   - Be aware that some fairness constraints may slightly reduce overall model accuracy\<newline>'',
     ''   - Establish acceptable thresholds for both fairness and performance\<newline>\<newline>'',
     ''2. **Regulatory Compliance**:\<newline>'',
     ''   - Document all bias mitigation efforts for regulatory review\<newline>'',
     ''   - Ensure compliance with ECOA, FHA, and FCRA requirements\<newline>'',
     ''   - Prepare explanations for any remaining disparities\<newline>\<newline>'',
     ''3. **Validation Approach**:\<newline>'',
     ''   - Test remediation strategies on historical data before implementation\<newline>'',
     ''   - Use A/B testing to validate improvements in fairness metrics\<newline>'',
     ''   - Establish a feedback loop for continuous improvement\<newline>\<newline>'']"

definition focus_sentence :: "string \<Rightarrow> string" where
  "focus_sentence most_biased =
     ''   - Focus particularly on '' @ most_biased
     @ '' fairness, which shows the highest disparity\<newline>\<newline>''"

definition generate_remediation_strategy :: "FairnessResponse \<Rightarrow> py_error + string" where
  "generate_remediation_strategy fairness_data =
     (let sorted_disparities = sorted_reverse (\<lambda>x. \<bar>snd x\<bar>) (disparities fairness_data)
      in bind_result (first_item sorted_disparities) (\<lambda>top.
         let most_biased = fst top;
             message = remediation_head;
             message = message @ focus_sentence most_biased;
             message = message @ remediation_rest
         in Inr message))"

section \<open>The sample data of the endpoints\<close>

text \<open>The metrics returned by \<^verbatim>\<open>get_fairness_metrics\<close> (route \<^verbatim>\<open>/fairness\<close>).\<close>

definition get_fairness_metrics :: FairnessResponse where
  "get_fairness_metrics =
     \<lparr>gender =
        \<lparr>approval_rates = [(''Male'', 0.72), (''Female'', 0.64)],
         approval_disparity = 0.08,
         fp_rates = [(''Male'', 0.15), (''Female'', 0.12)],
         fn_rates = [(''Male'', 0.10), (''Female'', 0.18)],
         fp_disparity = 0.03,
         fn_disparity = 0.08\<rparr>,
      race =
        \<lparr>approval_rates = [(''White'', 0.75), (''Black'', 0.62), (''Asian'', 0.70), (''Hispanic'', 0.65)],
         approval_disparity = 0.13,
         fp_rates = [(''White'', 0.16), (''Black'', 0.11), (''Asian'', 0.14), (''Hispanic'', 0.12)],
         fn_rates = [(''White'', 0.09), (''Black'', 0.19), (''Asian'', 0.12), (''Hispanic'', 0.16)],
         fp_disparity = 0.05,
         fn_disparity = 0.10\<rparr>,
      age_group =
        \<lparr>approval_rates = [(''Under 25'', 0.65), (''25-60'', 0.72), (''Over 60'', 0.68)],
         approval_disparity = 0.07,
         fp_rates = [(''Under 25'', 0.13), (''25-60'', 0.15), (''Over 60'', 0.14)],
         fn_rates = [(''Under 25'', 0.18), (''25-60'', 0.10), (''Over 60'', 0.15)],
         fp_disparity = 0.02,
         fn_disparity = 0.08\<rparr>,
      disability_status =
        \<lparr>approval_rates = [(''Yes'', 0.62), (''No'', 0.73)],
         approval_disparity = 0.11,
         fp_rates = [(''Yes'', 0.12), (''No'', 0.15)],
         fn_rates = [(''Yes'', 0.20), (''No'', 0.09)],
         fp_disparity = 0.03,
         fn_disparity = 0.11\<rparr>\<rparr>"

section \<open>Notions of the specification\<close>



text \<open>A list in descending order of its keys.\<close>

definition descending :: "('a \<Rightarrow> 'k::linorder) \<Rightarrow> 'a list \<Rightarrow> bool" where
  "descending key xs = sorted_wrt (\<lambda>a b. key b \<le> key a) xs"


text \<open>The bullet one iteration of a factor loop appends.\<close>

definition factor_bullet :: "string \<Rightarrow> string \<times> rat \<Rightarrow> string" where
  "factor_bullet ending item =
     ''- '' @ title (replace_underscore (fst item)) @ '': This factor had a ''
     @ format_1f (snd item * 100) @ ending"





text \<open>The explanation returned by \<^verbatim>\<open>predict\<close> (route \<^verbatim>\<open>/predict\<close>).\<close>

definition predict_explanation :: "(string \<times> rat) list" where
  "predict_explanation =
     [(''credit_score'', 0.4), (''income'', 0.3), (''loan_amount'', 0.2),
      (''age'', 0.05), (''gender'', 0.03), (''race'', 0.02)]"

text \<open>A text without a line break.\<close>

definition single_line :: "string \<Rightarrow> bool" where
  "single_line s = (CHR ''\<newline>'' \<notin> set s)"

text \<open>An application used as example input.\<close>

definition example_application :: LoanApplication where
  "example_application =
     \<lparr>applicant_gender = ''Female'', applicant_race = ''Asian'', age = 34,
      income = 52000.5, credit_score = 710, loan_amount = 120000,
      employment_type = ''Full-time'', education_level = ''Bachelor'',
      citizenship_status = ''Citizen'', language_proficiency = ''Fluent'',
      applicant_disability_status = ''No'', criminal_record = ''No'',
      zip_code_group = ''Urban''\<rparr>"




text \<open>
  The severity tiers of the specification: high above 10 percentage points, moderate
  above 5 and up to 10, low otherwise; the maximum magnitude they are applied to; and the
  wording of each tier in the summary and in the conclusion.
\<close>

datatype severity = High | Moderate | Low










section \<open>Properties of the built-ins\<close>

lemma sorted_reverse_Nil: "sorted_reverse key [] = []"
  by (simp add: sorted_reverse_def)

lemma sorted_reverse_Cons:
  "sorted_reverse key (x # xs) = insort_desc key x (sorted_reverse key xs)"
  by (simp add: sorted_reverse_def)

lemma mset_insort_desc: "mset (insort_desc key x ys) = add_mset x (mset ys)"
  by (induction ys) auto

lemma mset_sorted_reverse: "mset (sorted_reverse key xs) = mset xs"
  by (induction xs) (simp_all add: sorted_reverse_Nil sorted_reverse_Cons mset_insort_desc)

lemma set_insort_desc: "set (insort_desc key x ys) = insert x (set ys)"
  by (induction ys) auto



lemma descending_insort_desc:
  "descending key ys \<Longrightarrow> descending key (insort_desc key x ys)"
  by (induction ys) (auto simp: descending_def set_insort_desc)

lemma descending_sorted_reverse: "descending key (sorted_reverse key xs)"
proof (induction xs)
  case Nil
  show ?case by (simp add: sorted_reverse_Nil descending_def)
next
  case (Cons x xs)
  then show ?case by (simp add: sorted_reverse_Cons descending_insort_desc)
qed

lemma filter_insort_desc:
  "descending key ys \<Longrightarrow>
   filter (\<lambda>y. key y = k) (insort_desc key x ys) = filter (\<lambda>y. key y = k) (x # ys)"
proof (induction ys)
  case Nil
  then show ?case by simp
next
  case (Cons y ys)
  show ?case
  proof (cases "key y \<le> key x")
    case True
    then show ?thesis by simp
  next
    case False
    have d: "descending key ys" using Cons.prems by (simp add: descending_def)
    show ?thesis
    proof (cases "key y = k")
      case True
      then have xk: "key x \<noteq> k" using False by auto
      show ?thesis using False True xk Cons.IH[OF d] by simp
    next
      case False2: False
      show ?thesis using False False2 Cons.IH[OF d] by simp
    qed
  qed
qed

lemma sorted_reverse_stable:
  "filter (\<lambda>y. key y = k) (sorted_reverse key xs) = filter (\<lambda>y. key y = k) xs"
proof (induction xs)
  case Nil
  then show ?case by (simp add: sorted_reverse_def)
next
  case (Cons x xs)
  show ?case
    using filter_insort_desc[OF descending_sorted_reverse, of key k x xs] Cons.IH
    by (simp add: sorted_reverse_Cons)
qed

text \<open>
  A permutation of the input that is in descending key order and keeps the input order
  among equal keys is determined by these three properties, so every stable descending
  sort returns the list \<open>sorted_reverse\<close> computes.
\<close>

lemma descending_sorted_neg:
  fixes key :: "'a \<Rightarrow> rat"
  shows "descending key ys \<Longrightarrow> sorted (map (\<lambda>x. - key x) ys)"
  by (induction ys) (auto simp: descending_def)

lemma stable_descending_sort_key:
  fixes key :: "'a \<Rightarrow> rat"
  assumes "mset ys = mset xs" "descending key ys"
    and "\<forall>k. filter (\<lambda>x. key x = k) ys = filter (\<lambda>x. key x = k) xs"
  shows "sort_key (\<lambda>x. - key x) xs = ys"
proof (rule properties_for_sort_key)
  show "mset ys = mset xs" by (rule assms(1))
  show "sorted (map (\<lambda>x. - key x) ys)" using assms(2) by (rule descending_sorted_neg)
  fix k assume "k \<in> set ys"
  have "filter (\<lambda>x. key x = key k) ys = filter (\<lambda>x. key x = key k) xs"
    using assms(3) by blast
  moreover have "(\<lambda>x. - key k = - key x) = (\<lambda>x. key x = key k)" by auto
  ultimately show "filter (\<lambda>x. - key k = - key x) ys = filter (\<lambda>x. - key k = - key x) xs"
    by simp
qed

lemma sorted_reverse_unique:
  fixes key :: "'a \<Rightarrow> rat"
  assumes "mset ys = mset xs" "descending key ys"
    and "\<forall>k. filter (\<lambda>x. key x = k) ys = filter (\<lambda>x. key x = k) xs"
  shows "ys = sorted_reverse key xs"
proof -
  have "sort_key (\<lambda>x. - key x) xs = sorted_reverse key xs"
    using mset_sorted_reverse[of key xs] descending_sorted_reverse[of key xs]
      sorted_reverse_stable[of key _ xs]
    by (intro stable_descending_sort_key) auto
  then show ?thesis using stable_descending_sort_key[OF assms] by simp
qed





section \<open>Number formatting\<close>







section \<open>The remediation strategy\<close>












section \<open>The loan-decision explanation\<close>

lemma append_factors_concat:
  "append_factors ending xs message = message @ concat (map (factor_bullet ending) xs)"
  by (induction ending xs message rule: append_factors.induct)
     (simp_all add: factor_bullet_def)

lemma generate_loan_explanation_eq:
  "generate_loan_explanation application prediction =
     (if approved prediction
      then approved_opening (approval_probability prediction * 100)
           @ concat (map (factor_bullet ''% impact on your approval\<newline>'')
                       (take 3 (sorted_reverse snd (explanation prediction))))
           @ approved_closing application
      else denied_opening (approval_probability prediction * 100)
           @ concat (map (factor_bullet ''% impact on the decision\<newline>'')
                       (take 3 (sorted_reverse snd (explanation prediction))))
           @ denied_closing)"
  by (simp add: generate_loan_explanation_def append_factors_concat)








section \<open>Lines and numbered items\<close>











lemma single_line_append [simp]: "single_line (a @ b) \<longleftrightarrow> single_line a \<and> single_line b"
  by (auto simp: single_line_def)









































text \<open>
  Claim C7. With an empty explanation mapping the loan-decision explanation is still
  produced (no operation of the function can raise on it): the list of top factors is
  empty, no bullet is written, and the document is the opening of the chosen branch
  followed directly by its closing block.
\<close>

theorem loan_explanation_empty_factors:
  "explanation prediction = [] \<Longrightarrow>
     take 3 (sorted_reverse snd (explanation prediction)) = []
   \<and> generate_loan_explanation application prediction =
       (if approved prediction
        then approved_opening (approval_probability prediction * 100)
             @ approved_closing application
        else denied_opening (approval_probability prediction * 100) @ denied_closing)"
  by (simp add: generate_loan_explanation_def sorted_reverse_Nil)

text \<open>
  The example application, denied on an empty mapping: opening, then closing block.
\<close>

theorem loan_explanation_empty_factors_witness:
  "generate_loan_explanation example_application
      \<lparr>approved = False, approval_probability = 1 / 5, explanation = []\<rparr>
    = denied_opening 20 @ denied_closing"
  using loan_explanation_empty_factors[of
      "\<lparr>approved = False, approval_probability = 1 / 5, explanation = []\<rparr>" example_application]
  by simp

section \<open>The bias report\<close>





lemma py_min_Nil: "py_min key [] = Inl ValueError"
  by (simp add: py_min_def)



























































lemma bias_iteration_cong:
  assumes "approval_rates (gender fd1) = approval_rates (gender fd2)"
    "approval_rates (race fd1) = approval_rates (race fd2)"
    "approval_rates (age_group fd1) = approval_rates (age_group fd2)"
    "approval_rates (disability_status fd1) = approval_rates (disability_status fd2)"
  shows "bias_iteration fd1 item m = bias_iteration fd2 item m"
  unfolding bias_iteration_def assms by (rule refl)

lemma bias_loop_cong:
  assumes "approval_rates (gender fd1) = approval_rates (gender fd2)"
    "approval_rates (race fd1) = approval_rates (race fd2)"
    "approval_rates (age_group fd1) = approval_rates (age_group fd2)"
    "approval_rates (disability_status fd1) = approval_rates (disability_status fd2)"
  shows "bias_loop fd1 items m = bias_loop fd2 items m"
proof (induction items arbitrary: m)
  case Nil
  show ?case by simp
next
  case (Cons item items)
  have "bias_loop fd1 items = bias_loop fd2 items" using Cons.IH by (rule ext)
  then show ?case by (simp add: bias_iteration_cong[OF assms])
qed

lemma disparities_cong:
  assumes "approval_disparity (gender fd1) = approval_disparity (gender fd2)"
    "approval_disparity (race fd1) = approval_disparity (race fd2)"
    "approval_disparity (age_group fd1) = approval_disparity (age_group fd2)"
    "approval_disparity (disability_status fd1) = approval_disparity (disability_status fd2)"
  shows "disparities fd1 = disparities fd2"
  unfolding disparities_def assms by (rule refl)

text \<open>
  Claim C10. The loan-decision explanation reads two fields of the application only,
  the credit score and the income: two applications that agree on them get the same
  text for the same prediction, whatever their gender, race, age, disability status or
  zip code group; in the denied branch no field of the application is read at all. The
  bias report and the remediation strategy read \<^verbatim>\<open>approval_rates\<close> and
  \<^verbatim>\<open>approval_disparity\<close> only: two fairness reports that agree on these for the four
  attributes get the same result, whatever their \<^verbatim>\<open>fp_rates\<close>, \<^verbatim>\<open>fn_rates\<close>,
  \<^verbatim>\<open>fp_disparity\<close> and \<^verbatim>\<open>fn_disparity\<close>.
\<close>

theorem explanations_ignore_unread_fields:
  "(credit_score a1 = credit_score a2 \<and> income a1 = income a2 \<longrightarrow>
      generate_loan_explanation a1 p = generate_loan_explanation a2 p)
   \<and> (\<not> approved p \<longrightarrow> generate_loan_explanation a1 p = generate_loan_explanation a2 p)
   \<and> (approval_rates (gender fd1) = approval_rates (gender fd2)
        \<and> approval_rates (race fd1) = approval_rates (race fd2)
        \<and> approval_rates (age_group fd1) = approval_rates (age_group fd2)
        \<and> approval_rates (disability_status fd1) = approval_rates (disability_status fd2)
        \<and> approval_disparity (gender fd1) = approval_disparity (gender fd2)
        \<and> approval_disparity (race fd1) = approval_disparity (race fd2)
        \<and> approval_disparity (age_group fd1) = approval_disparity (age_group fd2)
        \<and> approval_disparity (disability_status fd1) = approval_disparity (disability_status fd2)
      \<longrightarrow> generate_bias_explanation fd1 = generate_bias_explanation fd2
        \<and> generate_remediation_strategy fd1 = generate_remediation_strategy fd2)"
proof (intro conjI impI)
  assume "credit_score a1 = credit_score a2 \<and> income a1 = income a2"
  then show "generate_loan_explanation a1 p = generate_loan_explanation a2 p"
    by (simp add: generate_loan_explanation_eq approved_closing_def)
next
  assume "\<not> approved p"
  then show "generate_loan_explanation a1 p = generate_loan_explanation a2 p"
    by (simp add: generate_loan_explanation_eq)
next
  assume a: "approval_rates (gender fd1) = approval_rates (gender fd2)
        \<and> approval_rates (race fd1) = approval_rates (race fd2)
        \<and> approval_rates (age_group fd1) = approval_rates (age_group fd2)
        \<and> approval_rates (disability_status fd1) = approval_rates (disability_status fd2)
        \<and> approval_disparity (gender fd1) = approval_disparity (gender fd2)
        \<and> approval_disparity (race fd1) = approval_disparity (race fd2)
        \<and> approval_disparity (age_group fd1) = approval_disparity (age_group fd2)
        \<and> approval_disparity (disability_status fd1) = approval_disparity (disability_status fd2)"
  have d: "disparities fd1 = disparities fd2"
    using a by (intro disparities_cong) simp_all
  have l: "bias_loop fd1 = bias_loop fd2"
    using a by (intro ext bias_loop_cong) simp_all
  show "generate_bias_explanation fd1 = generate_bias_explanation fd2"
    unfolding generate_bias_explanation_def d l by (rule refl)
  show "generate_remediation_strategy fd1 = generate_remediation_strategy fd2"
    unfolding generate_remediation_strategy_def d by (rule refl)
qed

text \<open>
  The example application and a copy with other protected attributes get the same
  approval text; the sample metrics and a copy with other false-positive and
  false-negative figures get the same report and the same strategy.
\<close>

theorem explanations_ignore_unread_fields_witness:
  "applicant_gender example_application
     \<noteq> applicant_gender (example_application
          \<lparr>applicant_gender := ''Male'', applicant_race := ''White'', age := 61,
           applicant_disability_status := ''Yes'', zip_code_group := ''Rural''\<rparr>)
   \<and> generate_loan_explanation example_application
         \<lparr>approved = True, approval_probability = 4 / 5, explanation = predict_explanation\<rparr>
     = generate_loan_explanation
         (example_application
            \<lparr>applicant_gender := ''Male'', applicant_race := ''White'', age := 61,
             applicant_disability_status := ''Yes'', zip_code_group := ''Rural''\<rparr>)
         \<lparr>approved = True, approval_probability = 4 / 5, explanation = predict_explanation\<rparr>
   \<and> fp_rates (gender get_fairness_metrics)
     \<noteq> fp_rates (gender (get_fairness_metrics
          \<lparr>gender := (gender get_fairness_metrics)
             \<lparr>fp_rates := [], fn_rates := [], fp_disparity := 1, fn_disparity := 1\<rparr>\<rparr>))
   \<and> generate_bias_explanation get_fairness_metrics
     = generate_bias_explanation
         (get_fairness_metrics
            \<lparr>gender := (gender get_fairness_metrics)
               \<lparr>fp_rates := [], fn_rates := [], fp_disparity := 1, fn_disparity := 1\<rparr>\<rparr>)
   \<and> generate_remediation_strategy get_fairness_metrics
     = generate_remediation_strategy
         (get_fairness_metrics
            \<lparr>gender := (gender get_fairness_metrics)
               \<lparr>fp_rates := [], fn_rates := [], fp_disparity := 1, fn_disparity := 1\<rparr>\<rparr>)"
proof -
  let ?a2 = "example_application
          \<lparr>applicant_gender := ''Male'', applicant_race := ''White'', age := 61,
           applicant_disability_status := ''Yes'', zip_code_group := ''Rural''\<rparr>"
  let ?p = "\<lparr>approved = True, approval_probability = 4 / 5, explanation = predict_explanation\<rparr>"
  let ?fd2 = "get_fairness_metrics
          \<lparr>gender := (gender get_fairness_metrics)
             \<lparr>fp_rates := [], fn_rates := [], fp_disparity := 1, fn_disparity := 1\<rparr>\<rparr>"
  note t = explanations_ignore_unread_fields[of example_application ?a2 ?p get_fairness_metrics ?fd2]
  have h1: "credit_score example_application = credit_score ?a2
      \<and> income example_application = income ?a2"
    by simp
  have h2: "approval_rates (gender get_fairness_metrics) = approval_rates (gender ?fd2)
        \<and> approval_rates (race get_fairness_metrics) = approval_rates (race ?fd2)
        \<and> approval_rates (age_group get_fairness_metrics) = approval_rates (age_group ?fd2)
        \<and> approval_rates (disability_status get_fairness_metrics)
            = approval_rates (disability_status ?fd2)
        \<and> approval_disparity (gender get_fairness_metrics) = approval_disparity (gender ?fd2)
        \<and> approval_disparity (race get_fairness_metrics) = approval_disparity (race ?fd2)
        \<and> approval_disparity (age_group get_fairness_metrics)
            = approval_disparity (age_group ?fd2)
        \<and> approval_disparity (disability_status get_fairness_metrics)
            = approval_disparity (disability_status ?fd2)"
    by simp
  have n1: "applicant_gender example_application \<noteq> applicant_gender ?a2"
    by (simp add: example_application_def)
  have n2: "fp_rates (gender get_fairness_metrics) \<noteq> fp_rates (gender ?fd2)"
    by (simp add: get_fairness_metrics_def)
  show ?thesis
    using mp[OF conjunct1[OF t] h1] mp[OF conjunct2[OF conjunct2[OF t]] h2] n1 n2
    by blast
qed

end
